theory Spec2Isabelle
  imports Main "HOL-Library.Word"
begin

section \<open>The character device simulator: data model\<close>

text \<open>
  The development embeds the device file operations of the class \<open>KernelSimulator\<close>
  (\<open>kernel-simulator.js\<close>): \<open>deviceOpen\<close>, \<open>deviceWrite\<close>, \<open>deviceRead\<close>,
  \<open>deviceIoctl\<close>, \<open>resizeBuffer\<close>, \<open>acquireMutex\<close>, \<open>releaseMutex\<close>,
  \<open>loadModule\<close> and \<open>unloadModule\<close>.

  The object's fields become a record that every operation takes and returns.
  A rejected promise and a thrown exception are the \<open>Inl\<close> branch of a sum.
  \<open>Date.now()\<close> is an input of the operations that call it. The kernel log
  (\<open>logKernel\<close>, its random process ids and the page elements it redraws) is not part
  of the state: no operation below reads it.

  JavaScript numbers are modelled as \<open>int\<close>: the callers pass integers
  (\<open>parseInt\<close> of a form field, or a constant), and all arithmetic on them here is
  addition, subtraction, \<open>Math.min\<close>, \<open>Math.max\<close> and \<open>%\<close>.
  The data of a write is the byte sequence \<open>new TextEncoder().encode(data)\<close>; the data
  of a read is the content of \<open>readBuffer\<close>, the bytes handed to \<open>TextDecoder\<close>.
\<close>

type_synonym byte = "8 word"

record stats_rec =
  bytesRead :: int
  bytesWritten :: int
  openCount :: int
  ioctlCount :: int
  errorCount :: int
  startTime :: int

record config_rec =
  loggingEnabled :: bool
  maxBufferSize :: int
  asyncMode :: bool
  interruptEnabled :: bool
  dmaEnabled :: bool
  networkSimEnabled :: bool

record kernel_simulator =
  moduleLoaded :: bool
  bufferView :: "byte list"
  bufferSize :: int
  bufferUsed :: int
  bufferPosition :: int
  stats :: stats_rec
  activeReaders :: int
  activeWriters :: int
  waitQueue :: "int list"
  mutex :: bool
  config :: config_rec

text \<open>
  The messages of the \<open>Error\<close> objects the operations throw or reject with.
  \<open>RangeError\<close> is the exception of the runtime for a typed array or array buffer of
  negative length.
\<close>

datatype error =
    NoSuchDeviceModuleNotLoaded  \<comment> \<open>\<open>'No such device (module not loaded)'\<close>, from \<open>deviceOpen\<close>\<close>
  | NoSuchDevice                 \<comment> \<open>\<open>'No such device'\<close>\<close>
  | ResourceBusy                 \<comment> \<open>\<open>'Resource busy'\<close>\<close>
  | BufferFull                   \<comment> \<open>\<open>'Buffer full'\<close>\<close>
  | BufferSizeExceedsMaximum     \<comment> \<open>\<open>'Buffer size exceeds maximum allowed'\<close>\<close>
  | InvalidIoctlCommand          \<comment> \<open>\<open>'Invalid IOCTL command'\<close>\<close>
  | RangeError

subsection \<open>Typed arrays and the remainder operator\<close>

text \<open>
  Reading a \<open>Uint8Array\<close> outside its range gives \<open>undefined\<close>, which every use below
  stores into another \<open>Uint8Array\<close>, where it becomes 0. Writing outside the range
  does nothing.
\<close>

definition view_get :: "byte list \<Rightarrow> int \<Rightarrow> byte" where
  "view_get v idx = (if 0 \<le> idx \<and> idx < int (length v) then v ! nat idx else 0)"

definition view_set :: "byte list \<Rightarrow> int \<Rightarrow> byte \<Rightarrow> byte list" where
  "view_set v idx b = (if 0 \<le> idx \<and> idx < int (length v) then v[nat idx := b] else v)"

text \<open>
  The operator \<open>%\<close> truncates towards zero: the result has the sign of the dividend.
  For a zero divisor JavaScript gives \<open>NaN\<close>, which \<open>int\<close> cannot hold; the model
  returns the dividend there. No statement below depends on that case: the driver
  reaches \<open>%\<close> with \<open>bufferSize = 0\<close> only from a state with
  \<open>bufferUsed\<close> outside \<open>0..bufferSize\<close>.
\<close>

definition js_rem :: "int \<Rightarrow> int \<Rightarrow> int" where
  "js_rem a b = sgn a * (\<bar>a\<bar> mod \<bar>b\<bar>)"

subsection \<open>Construction\<close>

definition constructor :: "int \<Rightarrow> kernel_simulator" where
  "constructor now =
     \<lparr> moduleLoaded = True,
       bufferView = replicate 1024 0,
       bufferSize = 1024,
       bufferUsed = 0,
       bufferPosition = 0,
       stats = \<lparr> bytesRead = 0, bytesWritten = 0, openCount = 0, ioctlCount = 0,
                 errorCount = 0, startTime = now \<rparr>,
       activeReaders = 0,
       activeWriters = 0,
       waitQueue = [],
       mutex = False,
       config = \<lparr> loggingEnabled = True, maxBufferSize = 8192, asyncMode = False,
                  interruptEnabled = True, dmaEnabled = True, networkSimEnabled = False \<rparr> \<rparr>"

section \<open>Operations\<close>

subsection \<open>The mutex\<close>

definition acquireMutex :: "int \<Rightarrow> kernel_simulator \<Rightarrow> (error + unit) \<times> kernel_simulator" where
  "acquireMutex now s =
     (if mutex s then (Inl ResourceBusy, s\<lparr>waitQueue := waitQueue s @ [now]\<rparr>)
      else (Inr (), s\<lparr>mutex := True\<rparr>))"

definition releaseMutex :: "kernel_simulator \<Rightarrow> kernel_simulator" where
  "releaseMutex s =
     (let s1 = s\<lparr>mutex := False\<rparr>
      in if length (waitQueue s1) > 0 then s1\<lparr>waitQueue := tl (waitQueue s1)\<rparr> else s1)"

text \<open>The statement \<open>this.stats.errorCount++\<close> of the three \<open>catch\<close> blocks.\<close>

definition count_error :: "kernel_simulator \<Rightarrow> kernel_simulator" where
  "count_error s = s\<lparr>stats := (stats s)\<lparr>errorCount := errorCount (stats s) + 1\<rparr>\<rparr>"

subsection \<open>open\<close>

definition deviceOpen :: "kernel_simulator \<Rightarrow> (error + unit) \<times> kernel_simulator" where
  "deviceOpen s =
     (if \<not> moduleLoaded s then (Inl NoSuchDeviceModuleNotLoaded, s)
      else (Inr (), s\<lparr>stats := (stats s)\<lparr>openCount := openCount (stats s) + 1\<rparr>\<rparr>))"

subsection \<open>write\<close>

text \<open>
  The copy loop \<open>for (i = 0; i < bytesToWrite; i++) bufferView[bufferPosition + i] = dataBytes[i]\<close>,
  by recursion on the number of iterations done: iteration \<open>k\<close> is the last one of
  \<open>copy_from_user (Suc k)\<close>. The index is not reduced modulo the size.
\<close>

fun copy_from_user :: "nat \<Rightarrow> int \<Rightarrow> byte list \<Rightarrow> byte list \<Rightarrow> byte list" where
  "copy_from_user 0 pos dataBytes v = v"
| "copy_from_user (Suc k) pos dataBytes v =
     view_set (copy_from_user k pos dataBytes v) (pos + int k) (view_get dataBytes (int k))"

text \<open>The \<open>finally\<close> block of \<open>deviceWrite\<close>.\<close>

definition deviceWrite_finally :: "kernel_simulator \<Rightarrow> kernel_simulator" where
  "deviceWrite_finally s = releaseMutex (s\<lparr>activeWriters := activeWriters s - 1\<rparr>)"

text \<open>
  The callback that \<open>deviceWrite\<close> hands to \<open>setTimeout\<close>. It runs to completion
  without interleaving. A failed \<open>acquireMutex\<close> throws inside the \<open>try\<close>: the
  \<open>catch\<close> block counts the error and the \<open>finally\<close> block runs. The full buffer
  rejects and returns inside the \<open>try\<close>: only the \<open>finally\<close> block runs.
\<close>

definition deviceWrite_timeout ::
  "int \<Rightarrow> byte list \<Rightarrow> kernel_simulator \<Rightarrow> (error + int) \<times> kernel_simulator" where
  "deviceWrite_timeout now dataBytes s =
     (case acquireMutex now s of
        (Inl e, s1) \<Rightarrow> (Inl e, deviceWrite_finally (count_error s1))
      | (Inr _, s1) \<Rightarrow>
          (let s2 = s1\<lparr>activeWriters := activeWriters s1 + 1\<rparr>;
               bytesToWrite = min (int (length dataBytes)) (bufferSize s2 - bufferUsed s2)
           in if bytesToWrite = 0 then (Inl BufferFull, deviceWrite_finally s2)
              else
                (let s3 = s2\<lparr>bufferView :=
                             copy_from_user (nat bytesToWrite) (bufferPosition s2) dataBytes
                               (bufferView s2)\<rparr>;
                     s4 = s3\<lparr>bufferUsed := bufferUsed s3 + bytesToWrite\<rparr>;
                     s5 = s4\<lparr>bufferPosition :=
                             js_rem (bufferPosition s4 + bytesToWrite) (bufferSize s4)\<rparr>;
                     s6 = s5\<lparr>stats := (stats s5)\<lparr>bytesWritten :=
                             bytesWritten (stats s5) + bytesToWrite\<rparr>\<rparr>
                 in (Inr bytesToWrite, deviceWrite_finally s6))))"

definition deviceWrite ::
  "int \<Rightarrow> byte list \<Rightarrow> kernel_simulator \<Rightarrow> (error + int) \<times> kernel_simulator" where
  "deviceWrite now dataBytes s =
     (if \<not> moduleLoaded s then (Inl NoSuchDevice, s)
      else deviceWrite_timeout now dataBytes s)"

subsection \<open>read\<close>

text \<open>
  The copy loop \<open>for (i = 0; i < bytesToRead; i++) readBuffer[i] = bufferView[(startPos + i) % bufferSize]\<close>.
\<close>

fun copy_to_user :: "nat \<Rightarrow> int \<Rightarrow> int \<Rightarrow> byte list \<Rightarrow> byte list \<Rightarrow> byte list" where
  "copy_to_user 0 startPos bufSize v readBuffer = readBuffer"
| "copy_to_user (Suc k) startPos bufSize v readBuffer =
     view_set (copy_to_user k startPos bufSize v readBuffer) (int k)
       (view_get v (js_rem (startPos + int k) bufSize))"

definition deviceRead_finally :: "kernel_simulator \<Rightarrow> kernel_simulator" where
  "deviceRead_finally s = releaseMutex (s\<lparr>activeReaders := activeReaders s - 1\<rparr>)"

text \<open>
  The callback of \<open>deviceRead\<close>. The result is the pair of \<open>data\<close> and \<open>bytesRead\<close>.
  A negative \<open>bytesToRead\<close> is not 0, and \<open>new Uint8Array(bytesToRead)\<close> throws a
  \<open>RangeError\<close> inside the \<open>try\<close>.
\<close>

definition deviceRead_timeout ::
  "int \<Rightarrow> int \<Rightarrow> kernel_simulator \<Rightarrow> (error + byte list \<times> int) \<times> kernel_simulator" where
  "deviceRead_timeout now count s =
     (case acquireMutex now s of
        (Inl e, s1) \<Rightarrow> (Inl e, deviceRead_finally (count_error s1))
      | (Inr _, s1) \<Rightarrow>
          (let s2 = s1\<lparr>activeReaders := activeReaders s1 + 1\<rparr>;
               bytesToRead = min count (bufferUsed s2)
           in if bytesToRead = 0 then (Inr ([], 0), deviceRead_finally s2)
              else if bytesToRead < 0 then (Inl RangeError, deviceRead_finally (count_error s2))
              else
                (let readBuffer0 = replicate (nat bytesToRead) 0;
                     startPos = max 0 (bufferPosition s2 - bufferUsed s2);
                     readBuffer = copy_to_user (nat bytesToRead) startPos (bufferSize s2)
                                    (bufferView s2) readBuffer0;
                     s3 = s2\<lparr>bufferUsed := bufferUsed s2 - bytesToRead\<rparr>;
                     s4 = s3\<lparr>stats := (stats s3)\<lparr>bytesRead :=
                             bytesRead (stats s3) + bytesToRead\<rparr>\<rparr>
                 in (Inr (readBuffer, bytesToRead), deviceRead_finally s4))))"

definition deviceRead ::
  "int \<Rightarrow> int \<Rightarrow> kernel_simulator \<Rightarrow> (error + byte list \<times> int) \<times> kernel_simulator" where
  "deviceRead now count s =
     (if \<not> moduleLoaded s then (Inl NoSuchDevice, s)
      else deviceRead_timeout now count s)"

subsection \<open>resize and ioctl\<close>

text \<open>
  The copy loop \<open>for (i = 0; i < copySize; i++) newView[i] = this.bufferView[i]\<close>:
  it reads the old storage from index 0.
\<close>

fun resize_copy :: "nat \<Rightarrow> byte list \<Rightarrow> byte list \<Rightarrow> byte list" where
  "resize_copy 0 v newView = newView"
| "resize_copy (Suc k) v newView =
     view_set (resize_copy k v newView) (int k) (view_get v (int k))"

text \<open>
  \<open>new ArrayBuffer(newSize)\<close> throws a \<open>RangeError\<close> for a negative length, before any
  field is assigned. The method itself compares \<open>newSize\<close> with nothing.
\<close>

definition resizeBuffer :: "int \<Rightarrow> kernel_simulator \<Rightarrow> (error + unit) \<times> kernel_simulator" where
  "resizeBuffer newSize s =
     (if newSize < 0 then (Inl RangeError, s)
      else
        (let newView0 = replicate (nat newSize) 0;
             copySize = min (bufferUsed s) newSize;
             newView = resize_copy (nat copySize) (bufferView s) newView0
         in (Inr (),
             s\<lparr>bufferView := newView,
               bufferSize := newSize,
               bufferUsed := min (bufferUsed s) newSize,
               bufferPosition := min (bufferPosition s) newSize\<rparr>)))"

text \<open>
  The callback of \<open>deviceIoctl\<close>. The argument is \<open>None\<close> when the caller passes
  \<open>null\<close> or nothing. \<open>arg || 2048\<close> takes the default for a missing argument and
  for 0.
\<close>

definition deviceIoctl_timeout ::
  "string \<Rightarrow> int option \<Rightarrow> kernel_simulator \<Rightarrow> (error + unit) \<times> kernel_simulator" where
  "deviceIoctl_timeout cmd arg s =
     (let s1 = s\<lparr>stats := (stats s)\<lparr>ioctlCount := ioctlCount (stats s) + 1\<rparr>\<rparr>
      in if cmd = ''CLEAR_BUFFER'' then
           (Inr (), s1\<lparr>bufferView := replicate (length (bufferView s1)) 0,
                        bufferUsed := 0,
                        bufferPosition := 0\<rparr>)
         else if cmd = ''SET_BUFFER_SIZE'' then
           (let newSize = (case arg of None \<Rightarrow> 2048 | Some a \<Rightarrow> if a = 0 then 2048 else a)
            in if newSize > maxBufferSize (config s1)
               then (Inl BufferSizeExceedsMaximum, count_error s1)
               else (case resizeBuffer newSize s1 of
                       (Inl e, s2) \<Rightarrow> (Inl e, count_error s2)
                     | (Inr _, s2) \<Rightarrow> (Inr (), s2)))
         else if cmd = ''ENABLE_LOGGING'' then
           (Inr (), s1\<lparr>config := (config s1)\<lparr>loggingEnabled := \<not> loggingEnabled (config s1)\<rparr>\<rparr>)
         else (Inl InvalidIoctlCommand, count_error s1))"

definition deviceIoctl ::
  "string \<Rightarrow> int option \<Rightarrow> kernel_simulator \<Rightarrow> (error + unit) \<times> kernel_simulator" where
  "deviceIoctl cmd arg s =
     (if \<not> moduleLoaded s then (Inl NoSuchDevice, s)
      else deviceIoctl_timeout cmd arg s)"

subsection \<open>Module management\<close>

text \<open>\<open>this.stats = { ...this.stats, startTime: Date.now() }\<close> keeps every counter.\<close>

definition loadModule :: "int \<Rightarrow> kernel_simulator \<Rightarrow> kernel_simulator" where
  "loadModule now s = s\<lparr>moduleLoaded := True, stats := (stats s)\<lparr>startTime := now\<rparr>\<rparr>"

definition unloadModule :: "kernel_simulator \<Rightarrow> kernel_simulator" where
  "unloadModule s = s\<lparr>moduleLoaded := False, activeReaders := 0, activeWriters := 0, waitQueue := []\<rparr>"

section \<open>Sequences of calls\<close>

text \<open>
  A caller issues the operations one after another; each timeout callback runs to
  completion before the next one starts. \<open>exec\<close> keeps the state an operation
  leaves behind, whether it succeeded or failed, and \<open>run\<close> folds a sequence of
  calls over a state, first call first.
\<close>

datatype call =
    Open
  | Write int "byte list"
  | Read int int
  | Ioctl string "int option"
  | Load int
  | Unload

fun exec :: "call \<Rightarrow> kernel_simulator \<Rightarrow> kernel_simulator" where
  "exec Open s = snd (deviceOpen s)"
| "exec (Write now dataBytes) s = snd (deviceWrite now dataBytes s)"
| "exec (Read now count) s = snd (deviceRead now count s)"
| "exec (Ioctl cmd arg) s = snd (deviceIoctl cmd arg s)"
| "exec (Load now) s = loadModule now s"
| "exec Unload s = unloadModule s"

fun run :: "call list \<Rightarrow> kernel_simulator \<Rightarrow> kernel_simulator" where
  "run [] s = s"
| "run (c # cs) s = run cs (exec c s)"

fun is_read_or_write :: "call \<Rightarrow> bool" where
  "is_read_or_write (Write now dataBytes) = True"
| "is_read_or_write (Read now count) = True"
| "is_read_or_write c = False"

text \<open>The fill count lies between 0 and the capacity.\<close>

definition used_in_range :: "kernel_simulator \<Rightarrow> bool" where
  "used_in_range s \<longleftrightarrow> 0 \<le> bufferUsed s \<and> bufferUsed s \<le> bufferSize s"

text \<open>Each of the five counters of the second record is at least that of the first.\<close>

definition counters_le :: "stats_rec \<Rightarrow> stats_rec \<Rightarrow> bool" where
  "counters_le a b \<longleftrightarrow>
     bytesRead a \<le> bytesRead b \<and> bytesWritten a \<le> bytesWritten b
   \<and> openCount a \<le> openCount b \<and> ioctlCount a \<le> ioctlCount b
   \<and> errorCount a \<le> errorCount b"

section \<open>Basic facts\<close>

lemmas mutex_defs = acquireMutex_def releaseMutex_def count_error_def
  deviceWrite_finally_def deviceRead_finally_def
lemmas write_defs = deviceWrite_def deviceWrite_timeout_def
lemmas read_defs = deviceRead_def deviceRead_timeout_def
lemmas ioctl_defs = deviceIoctl_def deviceIoctl_timeout_def resizeBuffer_def

lemma length_view_set [simp]: "length (view_set v idx b) = length v"
  by (simp add: view_set_def)

lemma length_copy_from_user [simp]: "length (copy_from_user k pos d v) = length v"
  by (induction k) simp_all

lemma length_copy_to_user [simp]: "length (copy_to_user k st sz v rb) = length rb"
  by (induction k) simp_all

lemma length_resize_copy [simp]: "length (resize_copy k v nv) = length nv"
  by (induction k) simp_all

section \<open>Contended access\<close>

text \<open>
  Claim C5. When \<open>deviceWrite\<close> or \<open>deviceRead\<close> runs on a loaded device whose
  \<open>mutex\<close> flag is already true, \<open>acquireMutex\<close> appends the timestamp to
  \<open>waitQueue\<close> and the call fails with \<open>'Resource busy'\<close>. The \<open>finally\<close> block
  still runs: the active counter of the call ends one below its value at entry, the
  \<open>mutex\<close> flag ends false, and \<open>releaseMutex\<close> removes the oldest entry of the
  queue.
\<close>

theorem busy_call_runs_cleanup:
  assumes "moduleLoaded s" and "mutex s"
  shows "fst (deviceWrite now dataBytes s) = Inl ResourceBusy
       \<and> fst (deviceRead now count s) = Inl ResourceBusy
       \<and> snd (acquireMutex now s) = s\<lparr>waitQueue := waitQueue s @ [now]\<rparr>
       \<and> activeWriters (snd (deviceWrite now dataBytes s)) = activeWriters s - 1
       \<and> activeReaders (snd (deviceRead now count s)) = activeReaders s - 1
       \<and> \<not> mutex (snd (deviceWrite now dataBytes s))
       \<and> \<not> mutex (snd (deviceRead now count s))
       \<and> waitQueue (snd (deviceWrite now dataBytes s)) = tl (waitQueue s @ [now])
       \<and> waitQueue (snd (deviceRead now count s)) = tl (waitQueue s @ [now])"
  using assms by (simp add: write_defs read_defs mutex_defs Let_def)

theorem busy_call_runs_cleanup_witness:
  "moduleLoaded ((constructor 0)\<lparr>mutex := True\<rparr>) \<and> mutex ((constructor 0)\<lparr>mutex := True\<rparr>)
   \<and> fst (deviceWrite 7 [0x41] ((constructor 0)\<lparr>mutex := True\<rparr>)) = Inl ResourceBusy
   \<and> fst (deviceRead 7 1 ((constructor 0)\<lparr>mutex := True\<rparr>)) = Inl ResourceBusy
   \<and> activeWriters (snd (deviceWrite 7 [0x41] ((constructor 0)\<lparr>mutex := True\<rparr>))) = - 1
   \<and> activeReaders (snd (deviceRead 7 1 ((constructor 0)\<lparr>mutex := True\<rparr>))) = - 1
   \<and> \<not> mutex (snd (deviceWrite 7 [0x41] ((constructor 0)\<lparr>mutex := True\<rparr>)))
   \<and> \<not> mutex (snd (deviceRead 7 1 ((constructor 0)\<lparr>mutex := True\<rparr>)))"
  using busy_call_runs_cleanup [of "(constructor 0)\<lparr>mutex := True\<rparr>" 7 "[0x41]" 1]
  by (simp add: constructor_def)

section \<open>Failures and the statistics\<close>

text \<open>
  A write that can store no byte rejects with \<open>'Buffer full'\<close> and returns inside
  the \<open>try\<close> block: the \<open>catch\<close> block does not run and \<open>errorCount\<close> keeps its
  value.
\<close>

lemma buffer_full_not_counted:
  assumes "fst (deviceWrite now dataBytes s) = Inl BufferFull"
  shows "errorCount (stats (snd (deviceWrite now dataBytes s))) = errorCount (stats s)"
  using assms by (simp add: write_defs mutex_defs Let_def split: if_splits)

text \<open>
  Claim C3, amended. A call that fails with \<open>'Resource busy'\<close>, with
  \<open>'Buffer size exceeds maximum allowed'\<close>, with \<open>'Invalid IOCTL command'\<close> or with
  a \<open>RangeError\<close> adds exactly 1 to \<open>stats.errorCount\<close>, in the state that is
  returned together with the error. A call that fails because the module is not
  loaded leaves the whole state, \<open>errorCount\<close> included, as it was. A successful write
  adds the returned \<open>bytesWritten\<close> to \<open>stats.bytesWritten\<close>, a successful read
  returns \<open>bytesRead\<close> bytes and adds \<open>bytesRead\<close> to \<open>stats.bytesRead\<close>, and
  neither changes \<open>errorCount\<close>.
\<close>

theorem error_and_byte_counting:
  "(fst (deviceWrite now dataBytes s) = Inl ResourceBusy \<longrightarrow>
      errorCount (stats (snd (deviceWrite now dataBytes s))) = errorCount (stats s) + 1)
 \<and> (fst (deviceRead now count s) = Inl ResourceBusy \<or> fst (deviceRead now count s) = Inl RangeError \<longrightarrow>
      errorCount (stats (snd (deviceRead now count s))) = errorCount (stats s) + 1)
 \<and> (fst (deviceIoctl cmd arg s) = Inl BufferSizeExceedsMaximum
      \<or> fst (deviceIoctl cmd arg s) = Inl InvalidIoctlCommand
      \<or> fst (deviceIoctl cmd arg s) = Inl RangeError \<longrightarrow>
      errorCount (stats (snd (deviceIoctl cmd arg s))) = errorCount (stats s) + 1)
 \<and> (fst (deviceOpen s) = Inl NoSuchDeviceModuleNotLoaded \<longrightarrow> snd (deviceOpen s) = s)
 \<and> (fst (deviceWrite now dataBytes s) = Inl NoSuchDevice \<longrightarrow> snd (deviceWrite now dataBytes s) = s)
 \<and> (fst (deviceRead now count s) = Inl NoSuchDevice \<longrightarrow> snd (deviceRead now count s) = s)
 \<and> (fst (deviceIoctl cmd arg s) = Inl NoSuchDevice \<longrightarrow> snd (deviceIoctl cmd arg s) = s)
 \<and> (\<forall>n. fst (deviceWrite now dataBytes s) = Inr n \<longrightarrow>
        bytesWritten (stats (snd (deviceWrite now dataBytes s))) = bytesWritten (stats s) + n
      \<and> errorCount (stats (snd (deviceWrite now dataBytes s))) = errorCount (stats s))
 \<and> (\<forall>bs n. fst (deviceRead now count s) = Inr (bs, n) \<longrightarrow>
        int (length bs) = n
      \<and> bytesRead (stats (snd (deviceRead now count s))) = bytesRead (stats s) + n
      \<and> errorCount (stats (snd (deviceRead now count s))) = errorCount (stats s))"
proof -
  have w_busy: "fst (deviceWrite now dataBytes s) = Inl ResourceBusy \<longrightarrow>
      errorCount (stats (snd (deviceWrite now dataBytes s))) = errorCount (stats s) + 1"
    by (simp add: write_defs mutex_defs Let_def split: if_splits)
  have r_fail: "fst (deviceRead now count s) = Inl ResourceBusy \<or> fst (deviceRead now count s) = Inl RangeError \<longrightarrow>
      errorCount (stats (snd (deviceRead now count s))) = errorCount (stats s) + 1"
    by (simp add: read_defs mutex_defs Let_def split: if_splits)
  have i_fail: "fst (deviceIoctl cmd arg s) = Inl BufferSizeExceedsMaximum
      \<or> fst (deviceIoctl cmd arg s) = Inl InvalidIoctlCommand
      \<or> fst (deviceIoctl cmd arg s) = Inl RangeError \<longrightarrow>
      errorCount (stats (snd (deviceIoctl cmd arg s))) = errorCount (stats s) + 1"
    by (simp add: ioctl_defs mutex_defs Let_def split: if_splits option.splits)
  have o_unl: "fst (deviceOpen s) = Inl NoSuchDeviceModuleNotLoaded \<longrightarrow> snd (deviceOpen s) = s"
    by (simp add: deviceOpen_def)
  have w_unl: "fst (deviceWrite now dataBytes s) = Inl NoSuchDevice \<longrightarrow> snd (deviceWrite now dataBytes s) = s"
    by (simp add: write_defs mutex_defs Let_def split: if_splits)
  have r_unl: "fst (deviceRead now count s) = Inl NoSuchDevice \<longrightarrow> snd (deviceRead now count s) = s"
    by (simp add: read_defs mutex_defs Let_def split: if_splits)
  have i_unl: "fst (deviceIoctl cmd arg s) = Inl NoSuchDevice \<longrightarrow> snd (deviceIoctl cmd arg s) = s"
    by (simp add: ioctl_defs mutex_defs Let_def split: if_splits option.splits)
  have w_ok: "\<forall>n. fst (deviceWrite now dataBytes s) = Inr n \<longrightarrow>
        bytesWritten (stats (snd (deviceWrite now dataBytes s))) = bytesWritten (stats s) + n
      \<and> errorCount (stats (snd (deviceWrite now dataBytes s))) = errorCount (stats s)"
    by (simp add: write_defs mutex_defs Let_def split: if_splits)
  have r_ok: "\<forall>bs n. fst (deviceRead now count s) = Inr (bs, n) \<longrightarrow>
        int (length bs) = n
      \<and> bytesRead (stats (snd (deviceRead now count s))) = bytesRead (stats s) + n
      \<and> errorCount (stats (snd (deviceRead now count s))) = errorCount (stats s)"
    by (auto simp add: read_defs mutex_defs Let_def split: if_splits)
  from w_busy r_fail i_fail o_unl w_unl r_unl i_unl w_ok r_ok show ?thesis
    by blast
qed

theorem error_and_byte_counting_witness:
  "fst (deviceWrite 7 [0x41] ((constructor 0)\<lparr>mutex := True\<rparr>)) = Inl ResourceBusy
 \<and> errorCount (stats (snd (deviceWrite 7 [0x41] ((constructor 0)\<lparr>mutex := True\<rparr>)))) = 1
 \<and> fst (deviceRead 7 1 ((constructor 0)\<lparr>mutex := True\<rparr>)) = Inl ResourceBusy
 \<and> errorCount (stats (snd (deviceRead 7 1 ((constructor 0)\<lparr>mutex := True\<rparr>)))) = 1
 \<and> fst (deviceIoctl ''RESET'' None ((constructor 0)\<lparr>mutex := True\<rparr>)) = Inl InvalidIoctlCommand
 \<and> errorCount (stats (snd (deviceIoctl ''RESET'' None ((constructor 0)\<lparr>mutex := True\<rparr>)))) = 1
 \<and> fst (deviceRead 7 (- 1) (constructor 0)) = Inl RangeError
 \<and> errorCount (stats (snd (deviceRead 7 (- 1) (constructor 0)))) = 1
 \<and> fst (deviceIoctl ''SET_BUFFER_SIZE'' (Some 99999) (constructor 0)) = Inl BufferSizeExceedsMaximum
 \<and> errorCount (stats (snd (deviceIoctl ''SET_BUFFER_SIZE'' (Some 99999) (constructor 0)))) = 1
 \<and> fst (deviceWrite 7 [0x41] (constructor 0)) = Inr 1
 \<and> bytesWritten (stats (snd (deviceWrite 7 [0x41] (constructor 0)))) = 1
 \<and> fst (deviceOpen (unloadModule (constructor 0))) = Inl NoSuchDeviceModuleNotLoaded
 \<and> fst (deviceWrite 7 [0x41] (unloadModule (constructor 0))) = Inl NoSuchDevice
 \<and> fst (deviceRead 7 1 (unloadModule (constructor 0))) = Inl NoSuchDevice
 \<and> fst (deviceIoctl ''CLEAR_BUFFER'' None (unloadModule (constructor 0))) = Inl NoSuchDevice
 \<and> errorCount (stats (snd (deviceWrite 7 [0x41] (unloadModule (constructor 0))))) = 0
 \<and> fst (deviceRead 8 1 (snd (deviceWrite 7 [0x41] (constructor 0)))) = Inr ([0x41], 1)
 \<and> bytesRead (stats (snd (deviceRead 8 1 (snd (deviceWrite 7 [0x41] (constructor 0)))))) = 1"
  using error_and_byte_counting [where now = 7 and dataBytes = "[0x41]"
          and s = "(constructor 0)\<lparr>mutex := True\<rparr>" and count = 1 and cmd = "''RESET''" and arg = None]
        error_and_byte_counting [where now = 7 and dataBytes = "[0x41]"
          and s = "constructor 0" and count = "- 1" and cmd = "''SET_BUFFER_SIZE''" and arg = "Some 99999"]
        error_and_byte_counting [where now = 7 and dataBytes = "[0x41]"
          and s = "unloadModule (constructor 0)" and count = 1 and cmd = "''CLEAR_BUFFER''" and arg = None]
        error_and_byte_counting [where now = 8 and dataBytes = "[0x41]"
          and s = "snd (deviceWrite 7 [0x41] (constructor 0))" and count = 1 and cmd = "''CLEAR_BUFFER''" and arg = None]
  by (simp add: write_defs read_defs ioctl_defs mutex_defs deviceOpen_def unloadModule_def
        constructor_def view_get_def view_set_def js_rem_def Let_def)

text \<open>
  Claim C3 as stated fails for the module that is not loaded: the write is rejected
  with \<open>'No such device'\<close> before the \<open>try\<close> block, and \<open>errorCount\<close> is 0 before
  and after.
\<close>

theorem unloaded_failure_not_counted:
  "fst (deviceWrite 7 [0x41] (unloadModule (constructor 0))) = Inl NoSuchDevice
 \<and> errorCount (stats (unloadModule (constructor 0))) = 0
 \<and> errorCount (stats (snd (deviceWrite 7 [0x41] (unloadModule (constructor 0))))) = 0
 \<and> errorCount (stats (snd (deviceWrite 7 [0x41] (unloadModule (constructor 0)))))
      \<noteq> errorCount (stats (unloadModule (constructor 0))) + 1"
  by code_simp

section \<open>Resizing through ioctl\<close>

text \<open>
  Claim C7, amended. On a loaded device, \<open>ioctl("SET_BUFFER_SIZE", a)\<close> fails when
  \<open>a\<close> is greater than \<open>config.maxBufferSize\<close>, with
  \<open>'Buffer size exceeds maximum allowed'\<close>, and fails when \<open>a\<close> is negative (with
  that error, or with the \<open>RangeError\<close> of the allocation in \<open>resizeBuffer\<close>). In both
  cases the storage, \<open>bufferSize\<close>, \<open>bufferUsed\<close> and \<open>bufferPosition\<close> are
  unchanged. (The argument 0 is not refused: see the next theorem.)
\<close>

theorem set_buffer_size_rejects:
  assumes "moduleLoaded s" and "a > maxBufferSize (config s) \<or> a < 0"
  shows "(fst (deviceIoctl ''SET_BUFFER_SIZE'' (Some a) s) = Inl BufferSizeExceedsMaximum
          \<or> fst (deviceIoctl ''SET_BUFFER_SIZE'' (Some a) s) = Inl RangeError)
       \<and> (a > maxBufferSize (config s) \<longrightarrow>
            fst (deviceIoctl ''SET_BUFFER_SIZE'' (Some a) s) = Inl BufferSizeExceedsMaximum)
       \<and> bufferView (snd (deviceIoctl ''SET_BUFFER_SIZE'' (Some a) s)) = bufferView s
       \<and> bufferSize (snd (deviceIoctl ''SET_BUFFER_SIZE'' (Some a) s)) = bufferSize s
       \<and> bufferUsed (snd (deviceIoctl ''SET_BUFFER_SIZE'' (Some a) s)) = bufferUsed s
       \<and> bufferPosition (snd (deviceIoctl ''SET_BUFFER_SIZE'' (Some a) s)) = bufferPosition s"
proof (cases "a = 0")
  case True
  with assms have "maxBufferSize (config s) < 0" by simp
  with True assms(1) show ?thesis
    by (simp add: ioctl_defs count_error_def Let_def)
next
  case False
  show ?thesis
  proof (cases "a > maxBufferSize (config s)")
    case True
    with False assms(1) show ?thesis
      by (simp add: ioctl_defs count_error_def Let_def)
  next
    case False
    with assms(2) have "a < 0" by simp
    with False \<open>a \<noteq> 0\<close> assms(1) show ?thesis
      by (simp add: ioctl_defs count_error_def Let_def)
  qed
qed

theorem set_buffer_size_rejects_witness:
  "moduleLoaded (constructor 0)
 \<and> (99999 > maxBufferSize (config (constructor 0)) \<or> (99999::int) < 0)
 \<and> fst (deviceIoctl ''SET_BUFFER_SIZE'' (Some 99999) (constructor 0)) = Inl BufferSizeExceedsMaximum
 \<and> bufferSize (snd (deviceIoctl ''SET_BUFFER_SIZE'' (Some 99999) (constructor 0))) = 1024
 \<and> (- 5 > maxBufferSize (config (constructor 0)) \<or> (- 5::int) < 0)
 \<and> fst (deviceIoctl ''SET_BUFFER_SIZE'' (Some (- 5)) (constructor 0)) = Inl RangeError
 \<and> bufferSize (snd (deviceIoctl ''SET_BUFFER_SIZE'' (Some (- 5)) (constructor 0))) = 1024"
  using set_buffer_size_rejects [of "constructor 0" 99999]
        set_buffer_size_rejects [of "constructor 0" "- 5"]
  by (simp add: constructor_def ioctl_defs count_error_def Let_def)

text \<open>
  Claim C7 as stated fails for the requested capacity 0: \<open>arg || 2048\<close> replaces it
  by the default, 2048 is not above the maximum 8192, and the call succeeds with a
  buffer of 2048 bytes.
\<close>

theorem set_buffer_size_zero_accepted:
  "(0::int) \<le> 0
 \<and> fst (deviceIoctl ''SET_BUFFER_SIZE'' (Some 0) (constructor 0)) = Inr ()
 \<and> bufferSize (constructor 0) = 1024
 \<and> bufferSize (snd (deviceIoctl ''SET_BUFFER_SIZE'' (Some 0) (constructor 0))) = 2048
 \<and> length (bufferView (snd (deviceIoctl ''SET_BUFFER_SIZE'' (Some 0) (constructor 0)))) = 2048"
  by (simp add: constructor_def ioctl_defs count_error_def Let_def)

section \<open>Reading after the cursor has wrapped\<close>

text \<open>
  The device after \<open>ioctl("SET_BUFFER_SIZE", 4)\<close>, \<open>write("AB")\<close>, \<open>read(2)\<close> and
  \<open>write("CD")\<close>, from the constructed device. The second write fills indices 2 and 3
  and the cursor wraps to 0.
\<close>

lemma wrapped_device:
  "snd (deviceWrite 3 [0x43, 0x44]
     (snd (deviceRead 2 2
       (snd (deviceWrite 1 [0x41, 0x42]
         (snd (deviceIoctl ''SET_BUFFER_SIZE'' (Some 4) (constructor 0)))))))) =
   (constructor 0)\<lparr>bufferView := [0x41, 0x42, 0x43, 0x44], bufferSize := 4, bufferUsed := 2,
     bufferPosition := 0,
     stats := (stats (constructor 0))\<lparr>bytesRead := 2, bytesWritten := 4, ioctlCount := 1\<rparr>\<rparr>"
  by code_simp

text \<open>
  Claim C2. \<open>read(maxCount)\<close> is to return the \<open>n = min(maxCount, used)\<close> bytes that
  start at \<open>(writeCursor - used + capacity) mod capacity\<close>. On the device above
  that offset is 2 and the two unread bytes there are \<open>"CD"\<close>. The code takes
  \<open>startPos = Math.max(0, bufferPosition - bufferUsed) = 0\<close> and returns the bytes
  \<open>"AB"\<close> at indices 0 and 1, which were read before.
\<close>

theorem read_after_wrap_returns_stale_bytes:
  "(bufferPosition
      ((constructor 0)\<lparr>bufferView := [0x41, 0x42, 0x43, 0x44], bufferSize := 4, bufferUsed := 2,
         bufferPosition := 0,
         stats := (stats (constructor 0))\<lparr>bytesRead := 2, bytesWritten := 4, ioctlCount := 1\<rparr>\<rparr>)
    - 2 + 4) mod 4 = (2::int)
 \<and> fst (deviceRead 4 2
      ((constructor 0)\<lparr>bufferView := [0x41, 0x42, 0x43, 0x44], bufferSize := 4, bufferUsed := 2,
         bufferPosition := 0,
         stats := (stats (constructor 0))\<lparr>bytesRead := 2, bytesWritten := 4, ioctlCount := 1\<rparr>\<rparr>))
     = Inr ([0x41, 0x42], 2)
 \<and> fst (deviceRead 4 2
      (snd (deviceWrite 3 [0x43, 0x44]
        (snd (deviceRead 2 2
          (snd (deviceWrite 1 [0x41, 0x42]
            (snd (deviceIoctl ''SET_BUFFER_SIZE'' (Some 4) (constructor 0)))))))))) 
     = Inr ([0x41, 0x42], 2)
 \<and> fst (deviceRead 2 2
      (snd (deviceWrite 1 [0x41, 0x42]
        (snd (deviceIoctl ''SET_BUFFER_SIZE'' (Some 4) (constructor 0))))))
     = Inr ([0x41, 0x42], 2)"
  by code_simp

section \<open>Resizing a buffer that has been read from\<close>

text \<open>
  Claim C6. A successful resize is to keep the unread bytes, in order, and to set
  the cursor to the copied length. From the constructed device, after
  \<open>write("ABCD")\<close> and \<open>read(2)\<close> the unread bytes are \<open>"CD"\<close>, at indices 2 and 3.
  \<open>ioctl("SET_BUFFER_SIZE", 8)\<close> succeeds with 8 not below \<open>used = 2\<close>. The copy loop
  takes indices 0 and 1 of the old storage, the new storage is \<open>"AB"\<close> followed by
  zeros, the cursor stays 4 (not the copied length 2), and the next \<open>read(2)\<close>
  returns two zero bytes: the unread \<open>"CD"\<close> is lost.
\<close>

theorem resize_drops_unread_bytes:
  "fst (deviceRead 3 2 (snd (deviceRead 2 2 (snd (deviceWrite 1 [0x41, 0x42, 0x43, 0x44] (constructor 0))))))
     = Inr ([0x43, 0x44], 2)
 \<and> bufferUsed (snd (deviceRead 2 2 (snd (deviceWrite 1 [0x41, 0x42, 0x43, 0x44] (constructor 0))))) = 2
 \<and> fst (deviceIoctl ''SET_BUFFER_SIZE'' (Some 8)
      (snd (deviceRead 2 2 (snd (deviceWrite 1 [0x41, 0x42, 0x43, 0x44] (constructor 0))))))
     = Inr ()
 \<and> bufferView (snd (deviceIoctl ''SET_BUFFER_SIZE'' (Some 8)
      (snd (deviceRead 2 2 (snd (deviceWrite 1 [0x41, 0x42, 0x43, 0x44] (constructor 0)))))))
     = [0x41, 0x42, 0, 0, 0, 0, 0, 0]
 \<and> bufferUsed (snd (deviceIoctl ''SET_BUFFER_SIZE'' (Some 8)
      (snd (deviceRead 2 2 (snd (deviceWrite 1 [0x41, 0x42, 0x43, 0x44] (constructor 0)))))))
     = 2
 \<and> bufferPosition (snd (deviceIoctl ''SET_BUFFER_SIZE'' (Some 8)
      (snd (deviceRead 2 2 (snd (deviceWrite 1 [0x41, 0x42, 0x43, 0x44] (constructor 0)))))))
     = 4
 \<and> fst (deviceRead 3 2 (snd (deviceIoctl ''SET_BUFFER_SIZE'' (Some 8)
      (snd (deviceRead 2 2 (snd (deviceWrite 1 [0x41, 0x42, 0x43, 0x44] (constructor 0))))))))
     = Inr ([0, 0], 2)"
  by code_simp

section \<open>The fill count stays in range\<close>

lemma used_in_range_constructor: "used_in_range (constructor t)"
  by (simp add: used_in_range_def constructor_def)

lemma used_in_range_write: "used_in_range s \<Longrightarrow> used_in_range (snd (deviceWrite now d s))"
  by (auto simp add: used_in_range_def write_defs mutex_defs Let_def)

lemma used_in_range_read: "used_in_range s \<Longrightarrow> used_in_range (snd (deviceRead now c s))"
  by (auto simp add: used_in_range_def read_defs mutex_defs Let_def)

lemma used_in_range_ioctl: "used_in_range s \<Longrightarrow> used_in_range (snd (deviceIoctl cmd arg s))"
  by (auto simp add: used_in_range_def ioctl_defs mutex_defs Let_def split: option.splits)

lemma used_in_range_exec: "used_in_range s \<Longrightarrow> used_in_range (exec c s)"
proof (cases c)
  case Open
  assume "used_in_range s"
  with Open show ?thesis by (simp add: used_in_range_def deviceOpen_def)
next
  case (Write now d)
  assume "used_in_range s"
  with Write show ?thesis by (simp add: used_in_range_write)
next
  case (Read now n)
  assume "used_in_range s"
  with Read show ?thesis by (simp add: used_in_range_read)
next
  case (Ioctl cmd arg)
  assume "used_in_range s"
  with Ioctl show ?thesis by (simp add: used_in_range_ioctl)
next
  case (Load now)
  assume "used_in_range s"
  with Load show ?thesis by (simp add: used_in_range_def loadModule_def)
next
  case Unload
  assume "used_in_range s"
  with Unload show ?thesis by (simp add: used_in_range_def unloadModule_def)
qed

lemma used_in_range_run: "used_in_range s \<Longrightarrow> used_in_range (run cs s)"
  by (induction cs arbitrary: s) (simp_all add: used_in_range_exec)

lemma run_append: "run (cs @ ds) s = run ds (run cs s)"
  by (induction cs arbitrary: s) simp_all

lemma bufferSize_write: "bufferSize (snd (deviceWrite now d s)) = bufferSize s"
  by (simp add: write_defs mutex_defs Let_def)

lemma bufferSize_read: "bufferSize (snd (deviceRead now c s)) = bufferSize s"
  by (simp add: read_defs mutex_defs Let_def)

lemma bufferSize_run_read_write:
  "list_all is_read_or_write cs \<Longrightarrow> bufferSize (run cs s) = bufferSize s"
proof (induction cs arbitrary: s)
  case Nil
  show ?case by simp
next
  case (Cons c cs)
  then show ?case
    by (cases c) (simp_all add: bufferSize_write bufferSize_read)
qed

text \<open>
  Claim C8. After every sequence of write and read calls issued to the constructed
  device, \<open>0 \<le> used \<le> capacity\<close>, and the capacity is still 1024. The sequence is
  arbitrary, so the statement holds after each of its calls: every prefix of a
  sequence of writes and reads is one.
\<close>

theorem used_within_capacity:
  assumes "list_all is_read_or_write cs"
  shows "0 \<le> bufferUsed (run cs (constructor t))
       \<and> bufferUsed (run cs (constructor t)) \<le> bufferSize (run cs (constructor t))
       \<and> bufferSize (run cs (constructor t)) = 1024"
proof -
  have "used_in_range (run cs (constructor t))"
    by (rule used_in_range_run) (rule used_in_range_constructor)
  moreover have "bufferSize (run cs (constructor t)) = 1024"
    using assms by (simp add: bufferSize_run_read_write constructor_def)
  ultimately show ?thesis
    by (simp add: used_in_range_def)
qed

theorem used_within_capacity_witness:
  "list_all is_read_or_write [Write 1 [0x48, 0x45, 0x4C, 0x4C, 0x4F], Read 2 3, Read 3 9]
 \<and> 0 \<le> bufferUsed (run [Write 1 [0x48, 0x45, 0x4C, 0x4C, 0x4F], Read 2 3, Read 3 9] (constructor 0))
 \<and> bufferUsed (run [Write 1 [0x48, 0x45, 0x4C, 0x4C, 0x4F], Read 2 3, Read 3 9] (constructor 0))
      \<le> bufferSize (run [Write 1 [0x48, 0x45, 0x4C, 0x4C, 0x4F], Read 2 3, Read 3 9] (constructor 0))
 \<and> bufferUsed (run [Write 1 [0x48, 0x45, 0x4C, 0x4C, 0x4F]] (constructor 0)) = 5
 \<and> bufferUsed (run [Write 1 [0x48, 0x45, 0x4C, 0x4C, 0x4F], Read 2 3] (constructor 0)) = 2"
proof -
  have rw: "list_all is_read_or_write [Write 1 [0x48, 0x45, 0x4C, 0x4C, 0x4F], Read 2 3, Read 3 9]"
    by simp
  have vals: "bufferUsed (run [Write 1 [0x48, 0x45, 0x4C, 0x4C, 0x4F]] (constructor 0)) = 5
     \<and> bufferUsed (run [Write 1 [0x48, 0x45, 0x4C, 0x4C, 0x4F], Read 2 3] (constructor 0)) = 2"
    by code_simp
  from used_within_capacity [OF rw, of 0] rw vals show ?thesis
    by simp
qed

section \<open>The active counters\<close>

lemma idle_exec:
  assumes "\<not> mutex s \<and> activeReaders s = 0 \<and> activeWriters s = 0"
  shows "\<not> mutex (exec c s) \<and> activeReaders (exec c s) = 0 \<and> activeWriters (exec c s) = 0"
proof (cases c)
  case Open
  with assms show ?thesis by (simp add: deviceOpen_def)
next
  case (Write now d)
  with assms show ?thesis by (simp add: write_defs mutex_defs Let_def)
next
  case (Read now n)
  with assms show ?thesis by (simp add: read_defs mutex_defs Let_def)
next
  case (Ioctl cmd arg)
  with assms show ?thesis
    by (simp add: ioctl_defs mutex_defs Let_def split: option.splits)
next
  case (Load now)
  with assms show ?thesis by (simp add: loadModule_def)
next
  case Unload
  with assms show ?thesis by (simp add: unloadModule_def)
qed

lemma idle_run:
  "\<not> mutex s \<and> activeReaders s = 0 \<and> activeWriters s = 0 \<Longrightarrow>
   \<not> mutex (run cs s) \<and> activeReaders (run cs s) = 0 \<and> activeWriters (run cs s) = 0"
proof (induction cs arbitrary: s)
  case Nil
  then show ?case by simp
next
  case (Cons c cs)
  from Cons.prems have "\<not> mutex (exec c s) \<and> activeReaders (exec c s) = 0 \<and> activeWriters (exec c s) = 0"
    by (rule idle_exec)
  then show ?case using Cons.IH by simp
qed

lemma write_callback_paired:
  assumes "\<not> mutex s"
  shows "\<exists>mid. snd (deviceWrite_timeout now d s) = deviceWrite_finally mid
           \<and> activeWriters mid = activeWriters s + 1
           \<and> activeReaders mid = activeReaders s
           \<and> activeWriters (deviceWrite_finally mid) = activeWriters s
           \<and> activeReaders (deviceWrite_finally mid) = activeReaders s
           \<and> \<not> mutex (deviceWrite_finally mid)"
proof (cases "min (int (length d)) (bufferSize s - bufferUsed s) = 0")
  case True
  with assms show ?thesis
    by (intro exI [of _ "s\<lparr>mutex := True, activeWriters := activeWriters s + 1\<rparr>"])
       (simp add: deviceWrite_timeout_def mutex_defs Let_def)
next
  case False
  with assms show ?thesis
    by (intro exI [of _ "s\<lparr>mutex := True, activeWriters := activeWriters s + 1,
          bufferView := copy_from_user (nat (min (int (length d)) (bufferSize s - bufferUsed s)))
                          (bufferPosition s) d (bufferView s),
          bufferUsed := bufferUsed s + min (int (length d)) (bufferSize s - bufferUsed s),
          bufferPosition := js_rem (bufferPosition s + min (int (length d)) (bufferSize s - bufferUsed s))
                              (bufferSize s),
          stats := (stats s)\<lparr>bytesWritten := bytesWritten (stats s)
                      + min (int (length d)) (bufferSize s - bufferUsed s)\<rparr>\<rparr>"])
       (simp add: deviceWrite_timeout_def mutex_defs Let_def)
qed

lemma read_callback_paired:
  assumes "\<not> mutex s"
  shows "\<exists>mid. snd (deviceRead_timeout now c s) = deviceRead_finally mid
           \<and> activeReaders mid = activeReaders s + 1
           \<and> activeWriters mid = activeWriters s
           \<and> activeReaders (deviceRead_finally mid) = activeReaders s
           \<and> activeWriters (deviceRead_finally mid) = activeWriters s
           \<and> \<not> mutex (deviceRead_finally mid)"
proof -
  consider "min c (bufferUsed s) = 0" | "min c (bufferUsed s) < 0" | "0 < min c (bufferUsed s)"
    by linarith
  then show ?thesis
  proof cases
    case 1
    with assms show ?thesis
      by (intro exI [of _ "s\<lparr>mutex := True, activeReaders := activeReaders s + 1\<rparr>"])
         (simp add: deviceRead_timeout_def mutex_defs Let_def)
  next
    case 2
    then have "min c (bufferUsed s) \<noteq> 0" by simp
    with 2 assms show ?thesis
      by (intro exI [of _ "count_error (s\<lparr>mutex := True, activeReaders := activeReaders s + 1\<rparr>)"])
         (simp add: deviceRead_timeout_def mutex_defs Let_def del: min_less_iff_disj)
  next
    case 3
    then have "min c (bufferUsed s) \<noteq> 0" and "\<not> min c (bufferUsed s) < 0" by linarith+
    with assms show ?thesis
      by (intro exI [of _ "s\<lparr>mutex := True, activeReaders := activeReaders s + 1,
            bufferUsed := bufferUsed s - min c (bufferUsed s),
            stats := (stats s)\<lparr>bytesRead := bytesRead (stats s) + min c (bufferUsed s)\<rparr>\<rparr>"])
         (simp add: deviceRead_timeout_def mutex_defs Let_def del: min_less_iff_disj min_less_iff_conj)
  qed
qed

text \<open>
  Claim C4. \<open>activeReaders\<close> and \<open>activeWriters\<close> are non-negative at every instant
  and every increment is paired with exactly one decrement. After every sequence
  of calls issued to the constructed device (open, write, read, ioctl, load, unload,
  in any order) the \<open>mutex\<close> flag is false and both counters are 0. Hence
  \<open>acquireMutex\<close> succeeds in the next callback, so no call takes the path that
  fails before the increment. Inside the write callback the state that reaches the
  \<open>finally\<close> block has \<open>activeWriters = 1\<close> and \<open>activeReaders = 0\<close>, whichever
  way the \<open>try\<close> block ends, and the \<open>finally\<close> block returns \<open>activeWriters\<close>
  to 0; the read callback does the same with \<open>activeReaders\<close>. The values a
  counter takes are 0, 1 and 0 again.
\<close>

theorem active_counters_paired:
  "\<not> mutex (run cs (constructor t))
 \<and> activeReaders (run cs (constructor t)) = 0
 \<and> activeWriters (run cs (constructor t)) = 0
 \<and> fst (acquireMutex now (run cs (constructor t))) = Inr ()
 \<and> (\<exists>mid. snd (deviceWrite_timeout now dataBytes (run cs (constructor t))) = deviceWrite_finally mid
        \<and> activeWriters mid = 1 \<and> activeReaders mid = 0
        \<and> activeWriters (deviceWrite_finally mid) = 0
        \<and> activeReaders (deviceWrite_finally mid) = 0)
 \<and> (\<exists>mid. snd (deviceRead_timeout now count (run cs (constructor t))) = deviceRead_finally mid
        \<and> activeReaders mid = 1 \<and> activeWriters mid = 0
        \<and> activeReaders (deviceRead_finally mid) = 0
        \<and> activeWriters (deviceRead_finally mid) = 0)"
proof -
  define s where "s = run cs (constructor t)"
  have "\<not> mutex (constructor t) \<and> activeReaders (constructor t) = 0 \<and> activeWriters (constructor t) = 0"
    by (simp add: constructor_def)
  then have idle: "\<not> mutex s \<and> activeReaders s = 0 \<and> activeWriters s = 0"
    unfolding s_def by (rule idle_run)
  then have free: "\<not> mutex s" by simp
  have acq: "fst (acquireMutex now s) = Inr ()"
    using free by (simp add: acquireMutex_def)
  from write_callback_paired [OF free, of now dataBytes] idle
  have w: "\<exists>mid. snd (deviceWrite_timeout now dataBytes s) = deviceWrite_finally mid
        \<and> activeWriters mid = 1 \<and> activeReaders mid = 0
        \<and> activeWriters (deviceWrite_finally mid) = 0
        \<and> activeReaders (deviceWrite_finally mid) = 0"
    by auto
  from read_callback_paired [OF free, of now count] idle
  have r: "\<exists>mid. snd (deviceRead_timeout now count s) = deviceRead_finally mid
        \<and> activeReaders mid = 1 \<and> activeWriters mid = 0
        \<and> activeReaders (deviceRead_finally mid) = 0
        \<and> activeWriters (deviceRead_finally mid) = 0"
    by auto
  from idle acq w r show ?thesis
    unfolding s_def by blast
qed

section \<open>The counters of the statistics\<close>

lemma counters_le_write:
  "used_in_range s \<Longrightarrow> counters_le (stats s) (stats (snd (deviceWrite now d s)))"
  by (auto simp add: used_in_range_def counters_le_def write_defs mutex_defs Let_def)

lemma counters_le_read:
  "counters_le (stats s) (stats (snd (deviceRead now c s)))"
  by (auto simp add: counters_le_def read_defs mutex_defs Let_def)

lemma counters_le_ioctl:
  "counters_le (stats s) (stats (snd (deviceIoctl cmd arg s)))"
  by (auto simp add: counters_le_def ioctl_defs mutex_defs Let_def split: option.splits)

lemma counters_le_exec:
  assumes "used_in_range s"
  shows "counters_le (stats s) (stats (exec c s))"
proof (cases c)
  case Open
  then show ?thesis by (simp add: counters_le_def deviceOpen_def)
next
  case (Write now d)
  with assms show ?thesis by (simp add: counters_le_write)
next
  case (Read now n)
  then show ?thesis by (simp add: counters_le_read)
next
  case (Ioctl cmd arg)
  then show ?thesis by (simp add: counters_le_ioctl)
next
  case (Load now)
  then show ?thesis by (simp add: counters_le_def loadModule_def)
next
  case Unload
  then show ?thesis by (simp add: counters_le_def unloadModule_def)
qed

text \<open>
  Claim C9, amended. Along every sequence of calls issued to the constructed device
  (open, write, read, ioctl, load, unload, in any order), each further call leaves
  each of \<open>bytesRead\<close>, \<open>bytesWritten\<close>, \<open>openCount\<close>, \<open>ioctlCount\<close> and
  \<open>errorCount\<close> at least as large as it was. No call resets them: \<open>loadModule\<close>
  keeps all five and replaces \<open>startTime\<close> only.
\<close>

theorem counters_never_decrease:
  "counters_le (stats (run cs (constructor t))) (stats (run (cs @ [c]) (constructor t)))
 \<and> bytesRead (stats (loadModule now s)) = bytesRead (stats s)
 \<and> bytesWritten (stats (loadModule now s)) = bytesWritten (stats s)
 \<and> openCount (stats (loadModule now s)) = openCount (stats s)
 \<and> ioctlCount (stats (loadModule now s)) = ioctlCount (stats s)
 \<and> errorCount (stats (loadModule now s)) = errorCount (stats s)
 \<and> startTime (stats (loadModule now s)) = now"
proof -
  have "used_in_range (run cs (constructor t))"
    by (rule used_in_range_run) (rule used_in_range_constructor)
  then have "counters_le (stats (run cs (constructor t))) (stats (exec c (run cs (constructor t))))"
    by (rule counters_le_exec)
  then show ?thesis
    by (simp add: run_append loadModule_def)
qed

text \<open>
  Claim C9 as stated fails where it says that \<open>load()\<close> resets the counters: after
  one \<open>open\<close>, an \<open>unload\<close> and a \<open>load\<close>, \<open>openCount\<close> is still 1.
\<close>

theorem load_keeps_counters:
  "openCount (stats (snd (deviceOpen (constructor 0)))) = 1
 \<and> openCount (stats (loadModule 9 (unloadModule (snd (deviceOpen (constructor 0)))))) = 1
 \<and> openCount (stats (loadModule 9 (unloadModule (snd (deviceOpen (constructor 0)))))) \<noteq> 0"
  by (simp add: deviceOpen_def loadModule_def unloadModule_def constructor_def)

section \<open>Writing and reading back\<close>

lemma js_rem_small: "0 \<le> a \<Longrightarrow> a < b \<Longrightarrow> js_rem a b = a"
  by (cases "a = 0") (simp_all add: js_rem_def)

lemma js_rem_self: "0 < b \<Longrightarrow> js_rem b b = 0"
  by (simp add: js_rem_def)

lemma nth_copy_to_user:
  "i < k \<Longrightarrow> k \<le> length rb \<Longrightarrow>
     copy_to_user k st sz v rb ! i = view_get v (js_rem (st + int i) sz)"
proof (induction k)
  case 0
  then show ?case by simp
next
  case (Suc k)
  show ?case
  proof (cases "i = k")
    case True
    with Suc.prems show ?thesis by (simp add: view_set_def)
  next
    case False
    with Suc.prems have "i < k" and "k \<le> length rb" by simp_all
    with Suc.IH False Suc.prems show ?thesis by (simp add: view_set_def)
  qed
qed

lemma view_get_copy_from_user:
  "0 \<le> p \<Longrightarrow> p + int k \<le> int (length v) \<Longrightarrow> k \<le> length d \<Longrightarrow> i < k \<Longrightarrow>
     view_get (copy_from_user k p d v) (p + int i) = d ! i"
proof (induction k)
  case 0
  then show ?case by simp
next
  case (Suc k)
  show ?case
  proof (cases "i = k")
    case True
    with Suc.prems show ?thesis by (simp add: view_set_def view_get_def)
  next
    case False
    with Suc.prems have "i < k" by simp
    with Suc.IH Suc.prems have ih: "view_get (copy_from_user k p d v) (p + int i) = d ! i"
      by simp
    from \<open>i < k\<close> Suc.prems have "nat (p + int i) \<noteq> nat (p + int k)" by simp
    with ih Suc.prems \<open>i < k\<close> show ?thesis
      by (simp add: view_set_def view_get_def)
  qed
qed

lemma write_stores:
  assumes "moduleLoaded s" and "\<not> mutex s"
    and "n = min (int (length B)) (bufferSize s - bufferUsed s)" and "n \<noteq> 0"
  shows "fst (deviceWrite t B s) = Inr n"
    and "moduleLoaded (snd (deviceWrite t B s))"
    and "\<not> mutex (snd (deviceWrite t B s))"
    and "bufferSize (snd (deviceWrite t B s)) = bufferSize s"
    and "bufferUsed (snd (deviceWrite t B s)) = bufferUsed s + n"
    and "bufferPosition (snd (deviceWrite t B s)) = js_rem (bufferPosition s + n) (bufferSize s)"
    and "bufferView (snd (deviceWrite t B s)) = copy_from_user (nat n) (bufferPosition s) B (bufferView s)"
  using assms by (simp_all add: write_defs mutex_defs Let_def)

lemma read_fetches:
  assumes "moduleLoaded s" and "\<not> mutex s" and "m = min c (bufferUsed s)" and "0 < m"
  shows "fst (deviceRead t c s) =
           Inr (copy_to_user (nat m) (max 0 (bufferPosition s - bufferUsed s)) (bufferSize s)
                  (bufferView s) (replicate (nat m) 0), m)"
  using assms by (auto simp add: read_defs mutex_defs Let_def)

text \<open>
  Claim C1, amended. On a loaded device that no call holds, whose storage has
  \<open>bufferSize\<close> bytes and whose buffer is empty (\<open>used = 0\<close>), writing \<open>B\<close> with
  \<open>len(B) \<le> capacity - used\<close> and then reading \<open>len(B)\<close> bytes returns exactly
  \<open>B\<close>, when the written region ends before the end of the storage
  (\<open>writeCursor + len(B) < capacity\<close>) or starts at index 0.
\<close>

theorem write_then_read_round_trip:
  assumes "moduleLoaded s" and "\<not> mutex s"
    and "int (length (bufferView s)) = bufferSize s"
    and "bufferUsed s = 0" and "0 \<le> bufferPosition s"
    and "int (length B) \<le> bufferSize s - bufferUsed s"
    and "bufferPosition s + int (length B) < bufferSize s \<or> bufferPosition s = 0"
  shows "fst (deviceRead t2 (int (length B)) (snd (deviceWrite t1 B s))) = Inr (B, int (length B))"
proof (cases "B = []")
  case True
  from assms(4,6) have "0 \<le> bufferSize s" by simp
  with True assms(1,2,4) show ?thesis
    by (simp add: write_defs read_defs mutex_defs Let_def)
next
  case False
  define n where "n = length B"
  define p where "p = bufferPosition s"
  define s' where "s' = snd (deviceWrite t1 B s)"
  from False have npos: "0 < n" by (simp add: n_def)
  from assms(4,6) have nmin: "int n = min (int (length B)) (bufferSize s - bufferUsed s)"
    by (simp add: n_def)
  from npos have nz: "int n \<noteq> 0" by simp
  have fits: "p + int n \<le> bufferSize s"
    using assms(4,6,7) by (auto simp add: n_def p_def)
  note w = write_stores [OF assms(1,2) nmin nz, of t1]
  have loaded': "moduleLoaded s'" and free': "\<not> mutex s'"
    and size': "bufferSize s' = bufferSize s"
    and used': "bufferUsed s' = int n"
    and view': "bufferView s' = copy_from_user n p B (bufferView s)"
    using w assms(4) by (simp_all add: s'_def p_def)
  have cur: "bufferPosition s' = js_rem (p + int n) (bufferSize s)"
    using w(6) by (simp add: s'_def p_def)
  have start: "max 0 (bufferPosition s' - bufferUsed s') = p"
  proof (cases "p + int n < bufferSize s")
    case True
    with assms(5) have "js_rem (p + int n) (bufferSize s) = p + int n"
      by (simp add: js_rem_small p_def)
    with cur used' assms(5) show ?thesis
      by (simp add: p_def)
  next
    case False
    with fits have eq: "p + int n = bufferSize s" by simp
    with npos assms(5) have "js_rem (p + int n) (bufferSize s) = 0"
      by (simp add: js_rem_self p_def)
    moreover from False assms(7) have "p = 0"
      by (simp add: n_def p_def)
    ultimately show ?thesis
      using cur used' by simp
  qed
  have m: "int n = min (int (length B)) (bufferUsed s')"
    using used' by (simp add: n_def)
  have rd: "fst (deviceRead t2 (int (length B)) s') =
      Inr (copy_to_user n p (bufferSize s) (copy_from_user n p B (bufferView s)) (replicate n 0), int n)"
    using read_fetches [OF loaded' free' m, of t2] npos start size' view' by simp
  have "copy_to_user n p (bufferSize s) (copy_from_user n p B (bufferView s)) (replicate n 0) = B"
  proof (rule nth_equalityI)
    show "length (copy_to_user n p (bufferSize s) (copy_from_user n p B (bufferView s)) (replicate n 0)) = length B"
      by (simp add: n_def)
  next
    fix i
    assume "i < length (copy_to_user n p (bufferSize s) (copy_from_user n p B (bufferView s)) (replicate n 0))"
    then have i: "i < n" by simp
    then have "copy_to_user n p (bufferSize s) (copy_from_user n p B (bufferView s)) (replicate n 0) ! i
        = view_get (copy_from_user n p B (bufferView s)) (js_rem (p + int i) (bufferSize s))"
      by (simp add: nth_copy_to_user)
    also have "js_rem (p + int i) (bufferSize s) = p + int i"
      using i fits assms(5) by (intro js_rem_small) (simp_all add: p_def)
    also have "view_get (copy_from_user n p B (bufferView s)) (p + int i) = B ! i"
      using i fits assms(3,5) by (intro view_get_copy_from_user) (simp_all add: p_def n_def)
    finally show "copy_to_user n p (bufferSize s) (copy_from_user n p B (bufferView s)) (replicate n 0) ! i = B ! i" .
  qed
  with rd show ?thesis
    by (simp add: s'_def n_def)
qed

theorem write_then_read_round_trip_witness:
  "moduleLoaded (constructor 0) \<and> \<not> mutex (constructor 0)
 \<and> int (length (bufferView (constructor 0))) = bufferSize (constructor 0)
 \<and> bufferUsed (constructor 0) = 0 \<and> 0 \<le> bufferPosition (constructor 0)
 \<and> int (length [0x48, 0x49 :: byte]) \<le> bufferSize (constructor 0) - bufferUsed (constructor 0)
 \<and> (bufferPosition (constructor 0) + int (length [0x48, 0x49 :: byte]) < bufferSize (constructor 0)
      \<or> bufferPosition (constructor 0) = 0)
 \<and> fst (deviceRead 2 2 (snd (deviceWrite 1 [0x48, 0x49] (constructor 0)))) = Inr ([0x48, 0x49], 2)"
  using write_then_read_round_trip [of "constructor 0" "[0x48, 0x49]" 2 1]
  by (simp add: constructor_def)

text \<open>
  Claim C1 as stated fails on a buffer that holds unread bytes: reads are served
  oldest first. After \<open>write("AB")\<close> on the constructed device, \<open>"CD"\<close> fits, and
  \<open>write("CD")\<close> followed by \<open>read(2)\<close> returns \<open>"AB"\<close>.
\<close>

theorem read_returns_oldest_bytes_first:
  "int (length [0x43, 0x44 :: byte])
     \<le> bufferSize (snd (deviceWrite 1 [0x41, 0x42] (constructor 0)))
       - bufferUsed (snd (deviceWrite 1 [0x41, 0x42] (constructor 0)))
 \<and> fst (deviceRead 3 (int (length [0x43, 0x44 :: byte]))
      (snd (deviceWrite 2 [0x43, 0x44] (snd (deviceWrite 1 [0x41, 0x42] (constructor 0))))))
     = Inr ([0x41, 0x42], 2)
 \<and> [0x41, 0x42] \<noteq> [0x43, 0x44 :: byte]"
  by code_simp

text \<open>
  The write region that passes the end of the storage, for the record: on the
  device of capacity 4 with the cursor at 2 and nothing unread, \<open>write("CDE")\<close>
  reports 3 bytes written, the store at index 4 has no effect, and \<open>read(3)\<close>
  returns \<open>"ABC"\<close>.
\<close>

lemma write_past_end_drops_bytes:
  "deviceWrite 3 [0x43, 0x44, 0x45]
     ((constructor 0)\<lparr>bufferView := [0x41, 0x42, 0, 0], bufferSize := 4, bufferPosition := 2\<rparr>)
   = (Inr 3,
      (constructor 0)\<lparr>bufferView := [0x41, 0x42, 0x43, 0x44], bufferSize := 4, bufferUsed := 3,
        bufferPosition := 1, stats := (stats (constructor 0))\<lparr>bytesWritten := 3\<rparr>\<rparr>)
 \<and> fst (deviceRead 4 3
      ((constructor 0)\<lparr>bufferView := [0x41, 0x42, 0x43, 0x44], bufferSize := 4, bufferUsed := 3,
        bufferPosition := 1, stats := (stats (constructor 0))\<lparr>bytesWritten := 3\<rparr>\<rparr>))
   = Inr ([0x41, 0x42, 0x43], 3)"
  by code_simp

section \<open>The unloaded module\<close>






end
